theory Spec2Isabelle
  imports Complex_Main "HOL-Library.Sublist"
begin

section \<open>GPU power monitor: per-process energy attribution\<close>

text \<open>
  A shallow embedding of \<^verbatim>\<open>src/GPU/gpu_power_monitor2.py\<close> (class
  \<^verbatim>\<open>GPUPowerMonitor\<close>).

  Modelling decisions:
  \<^item> Python floats are idealised as \<^typ>\<open>real\<close>: every statement below is about exact
    arithmetic, rounding is not modelled.
  \<^item> Python integers are \<^typ>\<open>int\<close>; \<^verbatim>\<open>usedGpuMemory\<close> is \<^typ>\<open>int option\<close>, with
    \<open>None\<close> for Python's \<^verbatim>\<open>None\<close> (the value pynvml reports when the driver has none).
  \<^item> Strings are byte strings in UTF-8; on well-formed UTF-8 the substring test on bytes
    agrees with the one on code points. Python's \<^verbatim>\<open>str.lower\<close> is a built-in of the
    language and not part of the source: it is a parameter \<open>lower\<close> of every function
    that calls it, and every property below holds for every such function.
  \<^item> The NVML driver is a record of what its calls return at one tick; the calls other
    than the process-name lookup are taken to succeed.
  \<^item> \<^verbatim>\<open>process_energy\<close>, a \<^verbatim>\<open>defaultdict(float)\<close>, is an association list in
    insertion order, as \<^verbatim>\<open>report\<close> iterates it in that order.
  \<^item> The wall clock and the keyboard interrupt decide how many ticks \<^verbatim>\<open>run\<close>
    performs; here the ticks performed are a finite list of driver observations, and a
    tick is atomic (an interrupt in the middle of \<^verbatim>\<open>sample\<close> is not modelled).
  \<^item> \<^verbatim>\<open>report\<close> returns the values it prints; the printed text and the CSV file are
    not modelled.
\<close>

subsection \<open>Errors\<close>

datatype error = ZeroDivisionError | SystemExit int

definition py_truediv :: "real \<Rightarrow> real \<Rightarrow> error + real" where
  \<comment> \<open>Python's \<^verbatim>\<open>a / b\<close>.\<close>
  "py_truediv a b = (if b = 0 then Inl ZeroDivisionError else Inr (a / b))"

subsection \<open>Strings\<close>

definition ascii_lower_char :: "char \<Rightarrow> char" where
  "ascii_lower_char c =
     (let n = (of_char c :: nat)
      in if 65 \<le> n \<and> n \<le> 90 then char_of (n + 32) else c)"

definition ascii_lower :: "string \<Rightarrow> string" where
  \<comment> \<open>what \<^verbatim>\<open>s.lower()\<close> gives on a string of ASCII characters; it stands for the
      parameter \<open>lower\<close> at the concrete inputs below, whose strings are all ASCII\<close>
  "ascii_lower s = map ascii_lower_char s"

fun py_startswith :: "string \<Rightarrow> string \<Rightarrow> bool" where
  "py_startswith [] hay = True"
| "py_startswith (c # cs) [] = False"
| "py_startswith (c # cs) (h # hs) = (c = h \<and> py_startswith cs hs)"

fun py_in :: "string \<Rightarrow> string \<Rightarrow> bool" where
  \<comment> \<open>\<^verbatim>\<open>needle in hay\<close> on strings: substring test.\<close>
  "py_in needle [] = (needle = [])"
| "py_in needle (h # hs) = (py_startswith needle (h # hs) \<or> py_in needle hs)"

definition digit_char :: "nat \<Rightarrow> char" where
  "digit_char n = char_of (48 + n)"

function str_nat :: "nat \<Rightarrow> string" where
  "str_nat n = (if n < 10 then [digit_char n] else str_nat (n div 10) @ [digit_char (n mod 10)])"
  by pat_completeness auto
termination
  by (relation "measure id") auto

declare str_nat.simps [simp del]

definition str_int :: "int \<Rightarrow> string" where
  \<comment> \<open>the decimal text an f-string gives an integer\<close>
  "str_int i = (if i < 0 then CHR ''-'' # str_nat (nat (- i)) else str_nat (nat i))"

subsection \<open>The driver, as seen at one tick\<close>

record nvml_process =
  pid :: int
  usedGpuMemory :: "int option"

record nvml =
  power_usage :: int  \<comment> \<open>\<^verbatim>\<open>nvmlDeviceGetPowerUsage\<close>, in milliwatts\<close>
  utilization_gpu :: int  \<comment> \<open>\<^verbatim>\<open>nvmlDeviceGetUtilizationRates(...).gpu\<close>\<close>
  graphics_procs :: "nvml_process list"
  compute_procs :: "nvml_process list"
  process_name :: "int \<Rightarrow> string option"  \<comment> \<open>\<^verbatim>\<open>nvmlSystemGetProcessName\<close>; \<open>None\<close> when it raises\<close>
  clock :: real  \<comment> \<open>\<^verbatim>\<open>time.time()\<close>\<close>

definition running_procs :: "nvml \<Rightarrow> nvml_process list" where
  "running_procs d = graphics_procs d @ compute_procs d"

subsection \<open>The monitor's state\<close>

type_synonym ledger = "(string \<times> real) list"

record monitor =
  target_process :: "string option"
  sample_interval :: real
  samples :: "(real \<times> real \<times> int) list"
  process_energy :: ledger

definition SAMPLE_INTERVAL_MS :: real where
  "SAMPLE_INTERVAL_MS = 10"

fun dict_add :: "string \<Rightarrow> real \<Rightarrow> ledger \<Rightarrow> ledger" where
  \<comment> \<open>\<^verbatim>\<open>d[k] += x\<close> on a \<^verbatim>\<open>defaultdict(float)\<close>: a missing key starts at 0.0 and is
      appended, an existing key keeps its place.\<close>
  "dict_add k x [] = [(k, 0 + x)]"
| "dict_add k x ((k', v) # rest) =
     (if k' = k then (k', v + x) # rest else (k', v) # dict_add k x rest)"

definition energy_of :: "ledger \<Rightarrow> string \<Rightarrow> real" where
  \<comment> \<open>the energy recorded under a name, 0 for a name that is not a key\<close>
  "energy_of e k = (case map_of e k of None \<Rightarrow> 0 | Some v \<Rightarrow> v)"

definition ledger_keys :: "ledger \<Rightarrow> string list" where
  "ledger_keys e = map fst e"

definition ledger_sum :: "ledger \<Rightarrow> real" where
  "ledger_sum e = sum_list (map snd e)"

subsection \<open>Startup: \<^verbatim>\<open>__init__\<close> and \<^verbatim>\<open>is_process_running\<close>\<close>

definition truthy :: "string option \<Rightarrow> bool" where
  \<comment> \<open>\<^verbatim>\<open>if self.target_process:\<close> is false for \<^verbatim>\<open>None\<close> and for the empty string\<close>
  "truthy tp = (case tp of None \<Rightarrow> False | Some t \<Rightarrow> t \<noteq> [])"

fun is_process_running_loop ::
  "(string \<Rightarrow> string) \<Rightarrow> string \<Rightarrow> nvml \<Rightarrow> nvml_process list \<Rightarrow> bool" where
  "is_process_running_loop lower t d [] = False"
| "is_process_running_loop lower t d (p # ps) =
     (case process_name d (pid p) of
        None \<Rightarrow> is_process_running_loop lower t d ps
      | Some name \<Rightarrow>
          if py_in (lower t) (lower name) then True
          else is_process_running_loop lower t d ps)"

definition is_process_running :: "(string \<Rightarrow> string) \<Rightarrow> string \<Rightarrow> nvml \<Rightarrow> bool" where
  "is_process_running lower t d = is_process_running_loop lower t d (running_procs d)"

definition init :: "(string \<Rightarrow> string) \<Rightarrow> string option \<Rightarrow> nvml \<Rightarrow> error + monitor" where
  "init lower tp d =
     (let m = \<lparr>target_process = tp, sample_interval = SAMPLE_INTERVAL_MS / 1000,
               samples = [], process_energy = []\<rparr>
      in case tp of
           None \<Rightarrow> Inr m
         | Some t \<Rightarrow>
             if t \<noteq> [] then
               (if \<not> is_process_running lower t d then Inl (SystemExit 1) else Inr m)
             else Inr m)"

subsection \<open>One tick: \<^verbatim>\<open>sample\<close>\<close>

definition mem_or_zero :: "int option \<Rightarrow> int" where
  \<comment> \<open>\<^verbatim>\<open>p.usedGpuMemory or 0\<close>: \<^verbatim>\<open>None\<close> and 0 give 0, any other integer is kept\<close>
  "mem_or_zero v = (case v of None \<Rightarrow> 0 | Some x \<Rightarrow> if x = 0 then 0 else x)"

definition mem_values :: "nvml_process list \<Rightarrow> int list" where
  "mem_values procs = map (\<lambda>p. mem_or_zero (usedGpuMemory p)) procs"

definition total_mem :: "nvml_process list \<Rightarrow> int" where
  \<comment> \<open>\<^verbatim>\<open>sum(mem_values) or 1\<close>\<close>
  "total_mem procs = (let s = sum_list (mem_values procs) in if s = 0 then 1 else s)"

definition display_name :: "nvml \<Rightarrow> nvml_process \<Rightarrow> string" where
  \<comment> \<open>the \<^verbatim>\<open>try\<close>/\<^verbatim>\<open>except\<close> around the name lookup\<close>
  "display_name d p =
     (case process_name d (pid p) of Some name \<Rightarrow> name | None \<Rightarrow> ''PID_'' @ str_int (pid p))"

definition skipped :: "(string \<Rightarrow> string) \<Rightarrow> string option \<Rightarrow> string \<Rightarrow> bool" where
  \<comment> \<open>\<^verbatim>\<open>self.target_process and self.target_process.lower() not in name.lower()\<close>\<close>
  "skipped lower tp name =
     (case tp of
        None \<Rightarrow> False
      | Some t \<Rightarrow> t \<noteq> [] \<and> \<not> py_in (lower t) (lower name))"

definition energy_delta :: "real \<Rightarrow> int \<Rightarrow> real \<Rightarrow> nvml_process \<Rightarrow> error + real" where
  \<comment> \<open>lines 74 to 78: the energy one process is charged for one tick\<close>
  "energy_delta power_w tot dt p =
     (let used_mem = mem_or_zero (usedGpuMemory p)
      in case py_truediv (real_of_int used_mem) (real_of_int tot) of
           Inl err \<Rightarrow> Inl err
         | Inr mem_frac \<Rightarrow>
             (let proc_power = power_w * mem_frac in Inr (proc_power * dt)))"

fun sample_loop ::
  "(string \<Rightarrow> string) \<Rightarrow> nvml \<Rightarrow> string option \<Rightarrow> real \<Rightarrow> int \<Rightarrow> real \<Rightarrow>
   nvml_process list \<Rightarrow> ledger \<Rightarrow> error + ledger"
where
  "sample_loop lower d tp power_w tot dt [] e = Inr e"
| "sample_loop lower d tp power_w tot dt (p # ps) e =
     (let name = display_name d p
      in if skipped lower tp name then sample_loop lower d tp power_w tot dt ps e
         else case energy_delta power_w tot dt p of
                Inl err \<Rightarrow> Inl err
              | Inr x \<Rightarrow> sample_loop lower d tp power_w tot dt ps (dict_add name x e))"

definition power_w :: "nvml \<Rightarrow> real" where
  "power_w d = real_of_int (power_usage d) / 1000"

definition sample :: "(string \<Rightarrow> string) \<Rightarrow> monitor \<Rightarrow> nvml \<Rightarrow> error + monitor" where
  "sample lower m d =
     (let util = utilization_gpu d;
          procs = running_procs d;
          tot = total_mem procs;
          timestamp = clock d;
          m1 = m\<lparr>samples := samples m @ [(timestamp, power_w d, util)]\<rparr>
      in case sample_loop lower d (target_process m) (power_w d) tot (sample_interval m) procs
                (process_energy m) of
           Inl err \<Rightarrow> Inl err
         | Inr e \<Rightarrow> Inr (m1\<lparr>process_energy := e\<rparr>))"

subsection \<open>The run and the report\<close>

fun run_ticks :: "(string \<Rightarrow> string) \<Rightarrow> monitor \<Rightarrow> nvml list \<Rightarrow> error + monitor" where
  \<comment> \<open>the body of the \<^verbatim>\<open>while\<close> loop of \<^verbatim>\<open>run\<close>, once per observed tick\<close>
  "run_ticks lower m [] = Inr m"
| "run_ticks lower m (d # ds) =
     (case sample lower m d of Inl err \<Rightarrow> Inl err | Inr m' \<Rightarrow> run_ticks lower m' ds)"

record summary =
  duration :: real
  total_energy_j :: real
  total_energy_kwh :: real
  rows :: "(string \<times> real \<times> real) list"  \<comment> \<open>name, energy in kWh, percent of total\<close>

definition sample_total :: "monitor \<Rightarrow> real" where
  \<comment> \<open>\<^verbatim>\<open>sum(p * self.sample_interval for _, p, _ in self.samples)\<close>\<close>
  "sample_total m = sum_list (map (\<lambda>(t, p, u). p * sample_interval m) (samples m))"

definition percent :: "real \<Rightarrow> real \<Rightarrow> error + real" where
  \<comment> \<open>\<^verbatim>\<open>(e_j / total_energy_j * 100) if total_energy_j else 0\<close>\<close>
  "percent e_j tot =
     (if tot \<noteq> 0 then
        (case py_truediv e_j tot of Inl err \<Rightarrow> Inl err | Inr q \<Rightarrow> Inr (q * 100))
      else Inr 0)"

fun report_rows :: "real \<Rightarrow> ledger \<Rightarrow> error + (string \<times> real \<times> real) list" where
  "report_rows tot [] = Inr []"
| "report_rows tot ((name, e_j) # rest) =
     (let e_kwh = e_j / 3600000
      in case percent e_j tot of
           Inl err \<Rightarrow> Inl err
         | Inr pct \<Rightarrow>
             (case report_rows tot rest of
                Inl err \<Rightarrow> Inl err
              | Inr rs \<Rightarrow> Inr ((name, e_kwh, pct) # rs)))"

definition report :: "monitor \<Rightarrow> real \<Rightarrow> error + summary" where
  "report m dur =
     (let tot = sample_total m;
          tot_kwh = tot / 3600000
      in case report_rows tot (process_energy m) of
           Inl err \<Rightarrow> Inl err
         | Inr rs \<Rightarrow>
             Inr \<lparr>duration = dur, total_energy_j = tot, total_energy_kwh = tot_kwh, rows = rs\<rparr>)"

definition main ::
  "(string \<Rightarrow> string) \<Rightarrow> string option \<Rightarrow> nvml \<Rightarrow> nvml list \<Rightarrow> real \<Rightarrow> error + summary"
where
  \<comment> \<open>the script's entry point: construct the monitor, run, report\<close>
  "main lower tp d0 ticks dur =
     (case init lower tp d0 of
        Inl err \<Rightarrow> Inl err
      | Inr m \<Rightarrow>
          (case run_ticks lower m ticks of
             Inl err \<Rightarrow> Inl err
           | Inr m' \<Rightarrow> report m' dur))"

subsection \<open>Notions used to state the properties\<close>

definition spec_energy_delta :: "real \<Rightarrow> int \<Rightarrow> real \<Rightarrow> nvml_process \<Rightarrow> real" where
  \<comment> \<open>the specification's formula: power times memory fraction times interval\<close>
  "spec_energy_delta pw tot dt p =
     pw * (real_of_int (mem_or_zero (usedGpuMemory p)) / real_of_int tot) * dt"

definition charged ::
  "(string \<Rightarrow> string) \<Rightarrow> nvml \<Rightarrow> string option \<Rightarrow> nvml_process list \<Rightarrow> nvml_process list"
where
  \<comment> \<open>the processes the loop of \<^verbatim>\<open>sample\<close> does not skip\<close>
  "charged lower d tp procs = filter (\<lambda>p. \<not> skipped lower tp (display_name d p)) procs"

definition deltas ::
  "(string \<Rightarrow> string) \<Rightarrow> nvml \<Rightarrow> string option \<Rightarrow> real \<Rightarrow> int \<Rightarrow> real \<Rightarrow>
   nvml_process list \<Rightarrow> (string \<times> real) list"
where
  \<comment> \<open>the name and energy delta of every charged process, in order\<close>
  "deltas lower d tp pw tot dt procs =
     map (\<lambda>p. (display_name d p, spec_energy_delta pw tot dt p)) (charged lower d tp procs)"

fun apply_deltas :: "(string \<times> real) list \<Rightarrow> ledger \<Rightarrow> ledger" where
  "apply_deltas [] e = e"
| "apply_deltas ((k, x) # xs) e = apply_deltas xs (dict_add k x e)"

definition named :: "nvml \<Rightarrow> string \<Rightarrow> nvml_process list \<Rightarrow> nvml_process list" where
  \<comment> \<open>the processes shown under a given name\<close>
  "named d n procs = filter (\<lambda>p. display_name d p = n) procs"

definition wf_tick :: "nvml \<Rightarrow> bool" where
  \<comment> \<open>the data model's ranges: power is not negative, no reported memory is negative\<close>
  "wf_tick d =
     (0 \<le> power_usage d \<and> list_all (\<lambda>p. 0 \<le> mem_or_zero (usedGpuMemory p)) (running_procs d))"

definition missing_as_zero :: "nvml_process \<Rightarrow> nvml_process" where
  "missing_as_zero p = (case usedGpuMemory p of None \<Rightarrow> p\<lparr>usedGpuMemory := Some 0\<rparr> | Some v \<Rightarrow> p)"

definition with_missing_as_zero :: "nvml \<Rightarrow> nvml" where
  "with_missing_as_zero d =
     d\<lparr>graphics_procs := map missing_as_zero (graphics_procs d),
       compute_procs := map missing_as_zero (compute_procs d)\<rparr>"

definition with_fallback_names :: "nvml \<Rightarrow> nvml" where
  \<comment> \<open>a driver whose name lookup never fails: where the lookup of \<open>d\<close> fails it answers
      the synthetic label\<close>
  "with_fallback_names d =
     d\<lparr>process_name :=
         (\<lambda>i. Some (case process_name d i of Some n \<Rightarrow> n | None \<Rightarrow> ''PID_'' @ str_int i))\<rparr>"

definition all_charged_tick :: "nvml \<Rightarrow> bool" where
  \<comment> \<open>a snapshot with at least one process, each using a positive amount of memory\<close>
  "all_charged_tick d =
     (running_procs d \<noteq> [] \<and> list_all (\<lambda>p. 0 < mem_or_zero (usedGpuMemory p)) (running_procs d))"

subsection \<open>Concrete states and snapshots\<close>

definition fresh_monitor :: monitor where
  "fresh_monitor =
     \<lparr>target_process = None, sample_interval = SAMPLE_INTERVAL_MS / 1000, samples = [],
      process_energy = []\<rparr>"

definition names_AB :: "int \<Rightarrow> string option" where
  "names_AB i = (if i = 1 then Some ''A'' else if i = 2 then Some ''B'' else None)"

definition gpu_AB :: nvml where
  \<comment> \<open>100 W, process A with 600 MB and process B with 200 MB\<close>
  "gpu_AB =
     \<lparr>power_usage = 100000, utilization_gpu = 50,
      graphics_procs = [\<lparr>pid = 1, usedGpuMemory = Some (600 * 1048576)\<rparr>],
      compute_procs = [\<lparr>pid = 2, usedGpuMemory = Some (200 * 1048576)\<rparr>],
      process_name = names_AB, clock = 0\<rparr>"

definition gpu_idle :: nvml where
  \<comment> \<open>100 W drawn while no process uses the device\<close>
  "gpu_idle =
     \<lparr>power_usage = 100000, utilization_gpu = 0, graphics_procs = [], compute_procs = [],
      process_name = (\<lambda>i. None), clock = 0\<rparr>"

definition gpu_negative :: nvml where
  \<comment> \<open>100 W, process A reporting -200 and process B reporting 600\<close>
  "gpu_negative =
     \<lparr>power_usage = 100000, utilization_gpu = 50,
      graphics_procs = [\<lparr>pid = 1, usedGpuMemory = Some (- 200)\<rparr>],
      compute_procs = [\<lparr>pid = 2, usedGpuMemory = Some 600\<rparr>],
      process_name = names_AB, clock = 0\<rparr>"

definition gpu_unnamed :: nvml where
  \<comment> \<open>100 W, process 1 named A with 600 bytes, process 4321 without a name and without a
      memory reading, process 7 without a name with 200 bytes\<close>
  "gpu_unnamed =
     \<lparr>power_usage = 100000, utilization_gpu = 50,
      graphics_procs = [\<lparr>pid = 1, usedGpuMemory = Some 600\<rparr>,
                        \<lparr>pid = 4321, usedGpuMemory = None\<rparr>],
      compute_procs = [\<lparr>pid = 7, usedGpuMemory = Some 200\<rparr>],
      process_name = names_AB, clock = 0\<rparr>"

definition gpu_zero :: nvml where
  \<comment> \<open>100 W, process A reporting 0 bytes and process B without a memory reading\<close>
  "gpu_zero =
     \<lparr>power_usage = 100000, utilization_gpu = 50,
      graphics_procs = [\<lparr>pid = 1, usedGpuMemory = Some 0\<rparr>],
      compute_procs = [\<lparr>pid = 2, usedGpuMemory = None\<rparr>],
      process_name = names_AB, clock = 0\<rparr>"

section \<open>Properties\<close>

subsection \<open>Strings, the ledger and the loop of one tick\<close>

lemma py_startswith_prefix: "py_startswith xs ys = prefix xs ys"
  by (induction xs ys rule: py_startswith.induct) auto

lemma py_in_sublist: "py_in xs ys = sublist xs ys"
  by (induction ys) (auto simp: py_startswith_prefix sublist_Cons_right)

lemma py_in_Nil [simp]: "py_in [] ys"
  by (simp add: py_in_sublist)

lemma ledger_sum_dict_add: "ledger_sum (dict_add k x e) = ledger_sum e + x"
  by (induction e) (auto simp: ledger_sum_def)

lemma map_of_dict_add:
  "map_of (dict_add k x e) = (map_of e)(k \<mapsto> energy_of e k + x)"
  by (induction e) (auto simp: energy_of_def fun_eq_iff)

lemma energy_of_dict_add:
  "energy_of (dict_add k x e) n = (if n = k then energy_of e k + x else energy_of e n)"
  by (simp add: energy_of_def map_of_dict_add)

lemma keys_dict_add:
  "ledger_keys (dict_add k x e) =
     (if k \<in> set (ledger_keys e) then ledger_keys e else ledger_keys e @ [k])"
  by (induction e) (force simp: ledger_keys_def)+

lemma ledger_sum_apply_deltas:
  "ledger_sum (apply_deltas xs e) = ledger_sum e + sum_list (map snd xs)"
  by (induction xs e rule: apply_deltas.induct) (auto simp: ledger_sum_dict_add)

lemma energy_of_apply_deltas:
  "energy_of (apply_deltas xs e) n =
     energy_of e n + sum_list (map snd (filter (\<lambda>kx. fst kx = n) xs))"
  by (induction xs e rule: apply_deltas.induct) (auto simp: energy_of_dict_add)

lemma set_keys_apply_deltas:
  "set (ledger_keys (apply_deltas xs e)) = set (ledger_keys e) \<union> fst ` set xs"
  by (induction xs e rule: apply_deltas.induct) (auto simp: keys_dict_add)

lemma total_mem_nonzero: "total_mem procs \<noteq> 0"
  by (simp add: total_mem_def Let_def)

lemma energy_delta_ok:
  "tot \<noteq> 0 \<Longrightarrow> energy_delta pw tot dt p = Inr (spec_energy_delta pw tot dt p)"
  by (simp add: energy_delta_def py_truediv_def spec_energy_delta_def Let_def)

lemma sample_loop_eq:
  "tot \<noteq> 0 \<Longrightarrow>
   sample_loop lower d tp pw tot dt ps e = Inr (apply_deltas (deltas lower d tp pw tot dt ps) e)"
  by (induction ps arbitrary: e) (simp_all add: deltas_def charged_def energy_delta_ok Let_def)

lemma sample_eq:
  "sample lower m d =
     Inr (m\<lparr>samples := samples m @ [(clock d, power_w d, utilization_gpu d)],
            process_energy :=
              apply_deltas
                (deltas lower d (target_process m) (power_w d) (total_mem (running_procs d))
                   (sample_interval m) (running_procs d))
                (process_energy m)\<rparr>)"
  by (simp add: sample_def Let_def sample_loop_eq total_mem_nonzero)


subsection \<open>Conservation\<close>

lemma sum_list_spec_energy_delta:
  "sum_list (map (spec_energy_delta pw tot dt) ps) =
     pw * (real_of_int (sum_list (mem_values ps)) / real_of_int tot) * dt"
  by (induction ps) (simp_all add: spec_energy_delta_def mem_values_def algebra_simps add_divide_distrib)

lemma sum_snd_deltas:
  "sum_list (map snd (deltas lower d tp pw tot dt ps)) =
     sum_list (map (spec_energy_delta pw tot dt) (charged lower d tp ps))"
  by (simp add: deltas_def comp_def)

lemma charged_no_filter: "\<not> truthy tp \<Longrightarrow> charged lower d tp ps = ps"
  by (auto simp: charged_def skipped_def truthy_def split: option.splits)

lemma conservation_general:
  assumes "\<not> truthy (target_process m)" and "sum_list (mem_values (running_procs d)) \<noteq> 0"
  shows "\<exists>m'. sample lower m d = Inr m' \<and>
           ledger_sum (process_energy m') = ledger_sum (process_energy m) + power_w d * sample_interval m"
  using assms
  by (simp add: sample_eq ledger_sum_apply_deltas sum_snd_deltas charged_no_filter
      sum_list_spec_energy_delta total_mem_def)

lemma sum_list_pos_int:
  assumes "ps \<noteq> []" and pos: "\<forall>p\<in>set ps. 0 < f p"
  shows "0 < sum_list (map f ps :: int list)"
proof (cases ps)
  case Nil
  with assms(1) show ?thesis by simp
next
  case (Cons q qs)
  have "0 \<le> sum_list (map f qs)"
    using Cons pos by (intro sum_list_nonneg) (auto simp: less_imp_le)
  moreover have "0 < f q" using pos Cons by simp
  ultimately show ?thesis using Cons by simp
qed

text \<open>
  Claim C1, as amended. With no name filter active, at least one process in the snapshot
  and every process using a positive amount of memory, one call of \<^verbatim>\<open>sample\<close> succeeds
  and raises the sum of the ledger's energies by exactly the snapshot's power times the
  sampling interval (in exact arithmetic).
\<close>

theorem C1_conservation:
  assumes "\<not> truthy (target_process m)"
    and "running_procs d \<noteq> []"
    and "\<forall>p\<in>set (running_procs d). 0 < mem_or_zero (usedGpuMemory p)"
  shows "\<exists>m'. sample lower m d = Inr m' \<and>
           ledger_sum (process_energy m') - ledger_sum (process_energy m) =
             power_w d * sample_interval m"
proof -
  have "0 < sum_list (mem_values (running_procs d))"
    unfolding mem_values_def using assms(2,3) by (rule sum_list_pos_int)
  then have "sum_list (mem_values (running_procs d)) \<noteq> 0" by simp
  from conservation_general [where lower = lower, OF assms(1) this] show ?thesis by auto
qed

theorem C1_conservation_witness:
  "\<not> truthy (target_process fresh_monitor) \<and> running_procs gpu_AB \<noteq> [] \<and>
   list_all (\<lambda>p. 0 < mem_or_zero (usedGpuMemory p)) (running_procs gpu_AB) \<and>
   (\<exists>m'. sample ascii_lower fresh_monitor gpu_AB = Inr m' \<and>
      ledger_sum (process_energy m') - ledger_sum (process_energy fresh_monitor) =
        power_w gpu_AB * sample_interval fresh_monitor)"
proof -
  have a: "\<not> truthy (target_process fresh_monitor)"
    by (simp add: fresh_monitor_def truthy_def)
  have b: "running_procs gpu_AB \<noteq> []"
    by (simp add: running_procs_def gpu_AB_def)
  have c: "\<forall>p\<in>set (running_procs gpu_AB). 0 < mem_or_zero (usedGpuMemory p)"
    by (simp add: running_procs_def gpu_AB_def mem_or_zero_def)
  from C1_conservation [where lower = ascii_lower, OF a b c] a b c show ?thesis by (simp add: list_all_iff)
qed

text \<open>
  The claim without the requirement of a non-empty process list fails on an idle device:
  100 W are sampled, which makes 1 J for the interval of 0.01 s, and nothing is attributed.
\<close>

theorem C1_counterexample:
  "target_process fresh_monitor = None \<and> running_procs gpu_idle = [] \<and>
   sample ascii_lower fresh_monitor gpu_idle = Inr (fresh_monitor\<lparr>samples := [(0, 100, 0)]\<rparr>) \<and>
   ledger_sum (process_energy (fresh_monitor\<lparr>samples := [(0, 100, 0)]\<rparr>))
     - ledger_sum (process_energy fresh_monitor) = 0 \<and>
   power_w gpu_idle * sample_interval fresh_monitor = 1"
  by (simp add: sample_def fresh_monitor_def gpu_idle_def running_procs_def total_mem_def
      mem_values_def power_w_def SAMPLE_INTERVAL_MS_def ledger_sum_def Let_def)

text \<open>
  Claim C2. At 100 W with process A using 600 MB and process B using 200 MB, an interval of
  0.01 s and no filter, one call of \<^verbatim>\<open>sample\<close> adds exactly 0.75 J to the entry of A and
  0.25 J to the entry of B, whatever the ledger held before, and 1 J in total, which is
  the power times the interval.
\<close>

theorem C2_concrete_scenario:
  "\<exists>m'. sample lower \<lparr>target_process = None, sample_interval = SAMPLE_INTERVAL_MS / 1000,
                  samples = s, process_energy = e\<rparr> gpu_AB = Inr m' \<and>
         energy_of (process_energy m') ''A'' = energy_of e ''A'' + 0.75 \<and>
         energy_of (process_energy m') ''B'' = energy_of e ''B'' + 0.25 \<and>
         ledger_sum (process_energy m') = ledger_sum e + 1 \<and>
         power_w gpu_AB * (SAMPLE_INTERVAL_MS / 1000) = 1"
  by (simp add: sample_eq energy_of_dict_add ledger_sum_dict_add deltas_def charged_def
      skipped_def gpu_AB_def names_AB_def running_procs_def display_name_def spec_energy_delta_def
      total_mem_def mem_values_def mem_or_zero_def power_w_def SAMPLE_INTERVAL_MS_def)

subsection \<open>Missing, zero and negative memory readings\<close>

lemma sample_never_fails: "\<exists>m'. sample lower m d = Inr m'"
  by (simp add: sample_eq)

lemma missing_as_zero_pid [simp]: "pid (missing_as_zero p) = pid p"
  by (simp add: missing_as_zero_def split: option.splits)

lemma missing_as_zero_mem [simp]:
  "mem_or_zero (usedGpuMemory (missing_as_zero p)) = mem_or_zero (usedGpuMemory p)"
  by (simp add: missing_as_zero_def mem_or_zero_def split: option.splits)

lemma running_procs_missing:
  "running_procs (with_missing_as_zero d) = map missing_as_zero (running_procs d)"
  by (simp add: running_procs_def with_missing_as_zero_def)

lemma display_name_missing [simp]:
  "display_name (with_missing_as_zero d) (missing_as_zero p) = display_name d p"
  by (simp add: display_name_def with_missing_as_zero_def split: option.splits)

lemma mem_values_missing [simp]: "mem_values (map missing_as_zero ps) = mem_values ps"
  by (simp add: mem_values_def comp_def)

lemma total_mem_missing [simp]: "total_mem (map missing_as_zero ps) = total_mem ps"
  by (simp add: total_mem_def)

lemma spec_energy_delta_missing [simp]:
  "spec_energy_delta pw tot dt (missing_as_zero p) = spec_energy_delta pw tot dt p"
  by (simp add: spec_energy_delta_def)

lemma deltas_missing:
  "deltas lower (with_missing_as_zero d) tp pw tot dt (map missing_as_zero ps) = deltas lower d tp pw tot dt ps"
  by (simp add: deltas_def charged_def filter_map comp_def)

lemma power_w_missing [simp]: "power_w (with_missing_as_zero d) = power_w d"
  by (simp add: power_w_def with_missing_as_zero_def)

lemma sample_missing: "sample lower m (with_missing_as_zero d) = sample lower m d"
  by (simp add: sample_eq running_procs_missing deltas_missing)
     (simp add: with_missing_as_zero_def)

lemma filter_fst_deltas:
  "map snd (filter (\<lambda>kx. fst kx = n) (deltas lower d tp pw tot dt ps)) =
     map (spec_energy_delta pw tot dt) (named d n (charged lower d tp ps))"
  by (simp add: deltas_def named_def filter_map comp_def)

lemma energy_of_sample:
  "sample lower m d = Inr m' \<Longrightarrow>
   energy_of (process_energy m') n =
     energy_of (process_energy m) n +
     sum_list (map (spec_energy_delta (power_w d) (total_mem (running_procs d)) (sample_interval m))
                 (named d n (charged lower d (target_process m) (running_procs d))))"
  by (auto simp: sample_eq energy_of_apply_deltas filter_fst_deltas)

lemma named_charged:
  "named d n (charged lower d tp ps) = (if skipped lower tp n then [] else named d n ps)"
  by (induction ps) (auto simp: named_def charged_def)

lemma sum_list_all_zero:
  "\<forall>x\<in>set xs. f x = (0::real) \<Longrightarrow> sum_list (map f xs) = 0"
  by (induction xs) simp_all

lemma spec_energy_delta_nonneg:
  "0 \<le> pw \<Longrightarrow> 0 \<le> dt \<Longrightarrow> 0 < tot \<Longrightarrow> 0 \<le> mem_or_zero (usedGpuMemory p) \<Longrightarrow>
   0 \<le> spec_energy_delta pw tot dt p"
  by (simp add: spec_energy_delta_def)

lemma total_mem_pos:
  "list_all (\<lambda>p. 0 \<le> mem_or_zero (usedGpuMemory p)) ps \<Longrightarrow> 0 < total_mem ps"
proof -
  assume a: "list_all (\<lambda>p. 0 \<le> mem_or_zero (usedGpuMemory p)) ps"
  have "0 \<le> sum_list (mem_values ps)"
    unfolding mem_values_def using a by (intro sum_list_nonneg) (auto simp: list_all_iff)
  then show ?thesis by (simp add: total_mem_def Let_def)
qed

lemma power_w_nonneg: "wf_tick d \<Longrightarrow> 0 \<le> power_w d"
  by (simp add: wf_tick_def power_w_def)

lemma sum_deltas_nonneg:
  assumes "wf_tick d" and "0 \<le> dt" and "set qs \<subseteq> set (running_procs d)"
  shows "0 \<le> sum_list (map (spec_energy_delta (power_w d) (total_mem (running_procs d)) dt) qs)"
proof (rule sum_list_nonneg)
  fix x assume "x \<in> set (map (spec_energy_delta (power_w d) (total_mem (running_procs d)) dt) qs)"
  then obtain q where q: "q \<in> set qs" and x: "x = spec_energy_delta (power_w d) (total_mem (running_procs d)) dt q"
    by auto
  from assms(1) have all: "list_all (\<lambda>p. 0 \<le> mem_or_zero (usedGpuMemory p)) (running_procs d)"
    by (simp add: wf_tick_def)
  with q assms(3) have "0 \<le> mem_or_zero (usedGpuMemory q)" by (auto simp: list_all_iff)
  with x show "0 \<le> x"
    using power_w_nonneg [OF assms(1)] assms(2) total_mem_pos [OF all]
    by (simp add: spec_energy_delta_nonneg)
qed

lemma ledger_monotone:
  assumes "wf_tick d" and "0 \<le> sample_interval m" and "sample lower m d = Inr m'"
  shows "energy_of (process_energy m) n \<le> energy_of (process_energy m') n"
proof -
  have "set (named d n (charged lower d (target_process m) (running_procs d))) \<subseteq> set (running_procs d)"
    by (auto simp: named_def charged_def)
  from sum_deltas_nonneg [OF assms(1,2) this] energy_of_sample [OF assms(3), of n]
  show ?thesis by simp
qed

text \<open>
  Claim C3, as amended. A process whose memory reading is missing is treated as using 0
  bytes: replacing every missing reading by 0 changes neither the denominator nor the
  result of \<^verbatim>\<open>sample\<close>, and such a process is charged 0. When the power and all
  readings are non-negative, no entry of the ledger decreases. A negative reading is
  not clamped: it is used as reported.
\<close>

theorem C3_missing_memory_is_zero:
  "sample lower m (with_missing_as_zero d) = sample lower m d \<and>
   total_mem (running_procs (with_missing_as_zero d)) = total_mem (running_procs d) \<and>
   (usedGpuMemory p = None \<longrightarrow>
      energy_delta (power_w d) (total_mem (running_procs d)) (sample_interval m) p = Inr 0) \<and>
   (wf_tick d \<and> 0 \<le> sample_interval m \<longrightarrow>
      (\<exists>m'. sample lower m d = Inr m' \<and>
         (\<forall>n. energy_of (process_energy m) n \<le> energy_of (process_energy m') n)))"
proof -
  have a: "sample lower m (with_missing_as_zero d) = sample lower m d"
    by (rule sample_missing)
  have b: "total_mem (running_procs (with_missing_as_zero d)) = total_mem (running_procs d)"
    by (simp add: running_procs_missing)
  have c: "usedGpuMemory p = None \<longrightarrow>
      energy_delta (power_w d) (total_mem (running_procs d)) (sample_interval m) p = Inr 0"
    by (simp add: energy_delta_ok total_mem_nonzero spec_energy_delta_def mem_or_zero_def)
  have d: "wf_tick d \<and> 0 \<le> sample_interval m \<longrightarrow>
      (\<exists>m'. sample lower m d = Inr m' \<and>
         (\<forall>n. energy_of (process_energy m) n \<le> energy_of (process_energy m') n))"
    using sample_never_fails [of lower m d] ledger_monotone [where lower = lower and d = d and m = m]
    by blast
  from a b c d show ?thesis by blast
qed

theorem C3_missing_memory_is_zero_witness:
  "usedGpuMemory \<lparr>pid = 4321, usedGpuMemory = None\<rparr> = None \<and>
   wf_tick gpu_unnamed \<and> 0 \<le> sample_interval fresh_monitor \<and>
   sample ascii_lower fresh_monitor (with_missing_as_zero gpu_unnamed) = sample ascii_lower fresh_monitor gpu_unnamed \<and>
   energy_delta (power_w gpu_unnamed) (total_mem (running_procs gpu_unnamed))
     (sample_interval fresh_monitor) \<lparr>pid = 4321, usedGpuMemory = None\<rparr> = Inr 0 \<and>
   (\<exists>m'. sample ascii_lower fresh_monitor gpu_unnamed = Inr m' \<and>
      (\<forall>n. energy_of (process_energy fresh_monitor) n \<le> energy_of (process_energy m') n))"
proof -
  have h1: "usedGpuMemory \<lparr>pid = 4321, usedGpuMemory = None\<rparr> = None" by simp
  have h2: "wf_tick gpu_unnamed"
    by (simp add: wf_tick_def gpu_unnamed_def running_procs_def mem_or_zero_def)
  have h3: "0 \<le> sample_interval fresh_monitor"
    by (simp add: fresh_monitor_def SAMPLE_INTERVAL_MS_def)
  from C3_missing_memory_is_zero [where lower = ascii_lower and m = fresh_monitor and d = gpu_unnamed
      and p = "\<lparr>pid = 4321, usedGpuMemory = None\<rparr>"]
    h1 h2 h3
  show ?thesis by blast
qed

text \<open>
  A negative reading is kept: with readings -200 and 600 the denominator is 400, not 600,
  and the process with the negative reading is charged -0.5 J.
\<close>

theorem C3_counterexample:
  "sample ascii_lower fresh_monitor gpu_negative =
     Inr (fresh_monitor\<lparr>samples := [(0, 100, 50)],
                         process_energy := [(''A'', - (1 / 2)), (''B'', 3 / 2)]\<rparr>) \<and>
   total_mem (running_procs gpu_negative) = 400 \<and>
   energy_delta (power_w gpu_negative) (total_mem (running_procs gpu_negative))
     (sample_interval fresh_monitor) \<lparr>pid = 1, usedGpuMemory = Some (- 200)\<rparr> = Inr (- (1 / 2))"
  by (simp add: sample_def fresh_monitor_def gpu_negative_def names_AB_def running_procs_def
      total_mem_def mem_values_def mem_or_zero_def display_name_def skipped_def
      energy_delta_def py_truediv_def power_w_def SAMPLE_INTERVAL_MS_def Let_def)

text \<open>
  Claim C4. When the memory readings of a snapshot add up to 0, the denominator is 1,
  \<^verbatim>\<open>sample\<close> returns without a division error, every process is charged a defined
  amount, which is 0 for a process with zero memory, and when every process reports
  zero memory no energy in the ledger changes.
\<close>

theorem C4_zero_total_memory:
  assumes "sum_list (mem_values (running_procs d)) = 0"
  shows "total_mem (running_procs d) = 1 \<and>
         (\<exists>m'. sample lower m d = Inr m' \<and>
            (list_all (\<lambda>p. mem_or_zero (usedGpuMemory p) = 0) (running_procs d) \<longrightarrow>
               (\<forall>n. energy_of (process_energy m') n = energy_of (process_energy m) n))) \<and>
         (\<forall>p. \<exists>x. energy_delta (power_w d) (total_mem (running_procs d)) (sample_interval m) p = Inr x \<and>
                x = power_w d * real_of_int (mem_or_zero (usedGpuMemory p)) * sample_interval m \<and>
                (mem_or_zero (usedGpuMemory p) = 0 \<longrightarrow> x = 0))"
proof -
  have t: "total_mem (running_procs d) = 1"
    using assms by (simp add: total_mem_def)
  obtain m' where m': "sample lower m d = Inr m'"
    using sample_never_fails by blast
  have z: "list_all (\<lambda>p. mem_or_zero (usedGpuMemory p) = 0) (running_procs d) \<longrightarrow>
             (\<forall>n. energy_of (process_energy m') n = energy_of (process_energy m) n)"
  proof (intro impI allI)
    fix n
    assume all: "list_all (\<lambda>p. mem_or_zero (usedGpuMemory p) = 0) (running_procs d)"
    have "\<forall>q\<in>set (named d n (charged lower d (target_process m) (running_procs d))).
            spec_energy_delta (power_w d) (total_mem (running_procs d)) (sample_interval m) q = 0"
      using all by (auto simp: named_def charged_def list_all_iff spec_energy_delta_def)
    then have "sum_list (map (spec_energy_delta (power_w d) (total_mem (running_procs d)) (sample_interval m))
                 (named d n (charged lower d (target_process m) (running_procs d)))) = 0"
      by (rule sum_list_all_zero)
    with energy_of_sample [OF m', of n]
    show "energy_of (process_energy m') n = energy_of (process_energy m) n" by simp
  qed
  have e: "\<forall>p. \<exists>x. energy_delta (power_w d) (total_mem (running_procs d)) (sample_interval m) p = Inr x \<and>
                x = power_w d * real_of_int (mem_or_zero (usedGpuMemory p)) * sample_interval m \<and>
                (mem_or_zero (usedGpuMemory p) = 0 \<longrightarrow> x = 0)"
    by (simp add: t energy_delta_ok spec_energy_delta_def)
  from t m' z e show ?thesis by blast
qed

theorem C4_zero_total_memory_witness:
  "sum_list (mem_values (running_procs gpu_zero)) = 0 \<and>
   total_mem (running_procs gpu_zero) = 1 \<and>
   list_all (\<lambda>p. mem_or_zero (usedGpuMemory p) = 0) (running_procs gpu_zero) \<and>
   (\<exists>m'. sample ascii_lower fresh_monitor gpu_zero = Inr m' \<and>
      (\<forall>n. energy_of (process_energy m') n = energy_of (process_energy fresh_monitor) n))"
proof -
  have h: "sum_list (mem_values (running_procs gpu_zero)) = 0"
    by (simp add: gpu_zero_def running_procs_def mem_values_def mem_or_zero_def)
  have z: "list_all (\<lambda>p. mem_or_zero (usedGpuMemory p) = 0) (running_procs gpu_zero)"
    by (simp add: gpu_zero_def running_procs_def mem_or_zero_def)
  from C4_zero_total_memory [where lower = ascii_lower and m = fresh_monitor, OF h] h z show ?thesis by blast
qed

subsection \<open>The name filter\<close>

lemma ascii_lower_Nil [simp]: "ascii_lower [] = []"
  by (simp add: ascii_lower_def)

lemma skipped_None [simp]: "skipped lower None n = False"
  by (simp add: skipped_def)

lemma skipped_Some:
  "lower [] = [] \<Longrightarrow> skipped lower (Some f) n = (\<not> py_in (lower f) (lower n))"
  by (cases "f = []") (simp_all add: skipped_def)

lemma charged_None [simp]: "charged lower d None ps = ps"
  by (simp add: charged_def)

lemma named_subset: "set (named d n ps) \<subseteq> set ps"
  by (auto simp: named_def)

lemma keys_sample:
  "sample lower m d = Inr m' \<Longrightarrow>
   set (ledger_keys (process_energy m')) =
     set (ledger_keys (process_energy m)) \<union>
     display_name d ` set (charged lower d (target_process m) (running_procs d))"
  by (auto simp: sample_eq set_keys_apply_deltas deltas_def image_image)

text \<open>
  Claim C5, as amended. Take any snapshot, ledger and filter string, at the sampling
  interval the constructor sets, and compare \<^verbatim>\<open>sample\<close> with the filter and without it
  (\<open>lower\<close> is any function that maps the empty string to itself, as \<^verbatim>\<open>str.lower\<close>
  does). Both runs use the same denominator, the total over all processes. A process
  whose display name does not contain the filter, ignoring case, is absent from the
  deltas of the filtered run: its entry keeps its energy and no key is created for it. A
  name that contains the filter gets the same energy in both runs. When the power and
  the memory readings of the snapshot are non-negative, no name gets more energy with
  the filter than without it.
\<close>

theorem C5_filter_narrowing:
  assumes "lower [] = []"
  shows
  "\<exists>mf mu.
     sample lower \<lparr>target_process = Some f, sample_interval = SAMPLE_INTERVAL_MS / 1000,
                   samples = s, process_energy = e\<rparr> d = Inr mf \<and>
     sample lower \<lparr>target_process = None, sample_interval = SAMPLE_INTERVAL_MS / 1000,
                   samples = s, process_energy = e\<rparr> d = Inr mu \<and>
     process_energy mf =
       apply_deltas
         (deltas lower d (Some f) (power_w d) (total_mem (running_procs d))
            (SAMPLE_INTERVAL_MS / 1000) (running_procs d)) e \<and>
     process_energy mu =
       apply_deltas
         (deltas lower d None (power_w d) (total_mem (running_procs d))
            (SAMPLE_INTERVAL_MS / 1000) (running_procs d)) e \<and>
     (\<forall>p\<in>set (running_procs d).
        \<not> py_in (lower f) (lower (display_name d p)) \<longrightarrow>
          display_name d p \<notin>
            fst ` set (deltas lower d (Some f) (power_w d) (total_mem (running_procs d))
                         (SAMPLE_INTERVAL_MS / 1000) (running_procs d)) \<and>
          energy_of (process_energy mf) (display_name d p) = energy_of e (display_name d p) \<and>
          (display_name d p \<in> set (ledger_keys (process_energy mf)) \<longleftrightarrow>
             display_name d p \<in> set (ledger_keys e))) \<and>
     (\<forall>n. py_in (lower f) (lower n) \<longrightarrow>
        energy_of (process_energy mf) n = energy_of (process_energy mu) n) \<and>
     (wf_tick d \<longrightarrow>
        (\<forall>n. energy_of (process_energy mf) n \<le> energy_of (process_energy mu) n))"
proof -
  let ?tot = "total_mem (running_procs d)"
  let ?dt = "SAMPLE_INTERVAL_MS / 1000"
  let ?sed = "spec_energy_delta (power_w d) ?tot ?dt"
  let ?Mf = "\<lparr>target_process = Some f, sample_interval = ?dt, samples = s, process_energy = e\<rparr>"
  let ?Mu = "\<lparr>target_process = None, sample_interval = ?dt, samples = s, process_energy = e\<rparr>"
  obtain mf where mf: "sample lower ?Mf d = Inr mf"
    using sample_never_fails by blast
  obtain mu where mu: "sample lower ?Mu d = Inr mu"
    using sample_never_fails by blast
  have ef: "process_energy mf =
       apply_deltas (deltas lower d (Some f) (power_w d) ?tot ?dt (running_procs d)) e"
    using mf by (auto simp: sample_eq)
  have eu: "process_energy mu =
       apply_deltas (deltas lower d None (power_w d) ?tot ?dt (running_procs d)) e"
    using mu by (auto simp: sample_eq)
  have gf: "energy_of (process_energy mf) n =
      energy_of e n +
      (if py_in (lower f) (lower n) then sum_list (map ?sed (named d n (running_procs d))) else 0)"
    for n
    using energy_of_sample [OF mf, of n]
    by (simp add: named_charged skipped_Some [where lower = lower, OF assms])
  have gu: "energy_of (process_energy mu) n =
      energy_of e n + sum_list (map ?sed (named d n (running_procs d)))"
    for n
    using energy_of_sample [OF mu, of n] by simp
  have kf: "set (ledger_keys (process_energy mf)) =
      set (ledger_keys e) \<union> display_name d ` set (charged lower d (Some f) (running_procs d))"
    using keys_sample [OF mf] by simp
  have out: "n \<notin> display_name d ` set (charged lower d (Some f) (running_procs d))"
    if "\<not> py_in (lower f) (lower n)" for n
    using that by (auto simp: charged_def skipped_Some [where lower = lower, OF assms])
  have excl: "\<forall>p\<in>set (running_procs d).
        \<not> py_in (lower f) (lower (display_name d p)) \<longrightarrow>
          display_name d p \<notin>
            fst ` set (deltas lower d (Some f) (power_w d) ?tot ?dt (running_procs d)) \<and>
          energy_of (process_energy mf) (display_name d p) = energy_of e (display_name d p) \<and>
          (display_name d p \<in> set (ledger_keys (process_energy mf)) \<longleftrightarrow>
             display_name d p \<in> set (ledger_keys e))"
  proof (intro ballI impI)
    fix p
    assume "p \<in> set (running_procs d)"
      and no: "\<not> py_in (lower f) (lower (display_name d p))"
    have "fst ` set (deltas lower d (Some f) (power_w d) ?tot ?dt (running_procs d)) =
            display_name d ` set (charged lower d (Some f) (running_procs d))"
      by (simp add: deltas_def image_image)
    with out [OF no] kf gf [of "display_name d p"] no
    show "display_name d p \<notin>
            fst ` set (deltas lower d (Some f) (power_w d) ?tot ?dt (running_procs d)) \<and>
          energy_of (process_energy mf) (display_name d p) = energy_of e (display_name d p) \<and>
          (display_name d p \<in> set (ledger_keys (process_energy mf)) \<longleftrightarrow>
             display_name d p \<in> set (ledger_keys e))"
      by simp
  qed
  have same: "\<forall>n. py_in (lower f) (lower n) \<longrightarrow>
        energy_of (process_energy mf) n = energy_of (process_energy mu) n"
    by (simp add: gf gu)
  have dt: "0 \<le> ?dt" by (simp add: SAMPLE_INTERVAL_MS_def)
  have le: "wf_tick d \<longrightarrow>
        (\<forall>n. energy_of (process_energy mf) n \<le> energy_of (process_energy mu) n)"
  proof (intro impI allI)
    fix n
    assume wf: "wf_tick d"
    have "0 \<le> sum_list (map ?sed (named d n (running_procs d)))"
      using sum_deltas_nonneg [OF wf dt named_subset] .
    then show "energy_of (process_energy mf) n \<le> energy_of (process_energy mu) n"
      by (simp add: gf gu)
  qed
  from mf mu ef eu excl same le show ?thesis by blast
qed

lemma lower_a:
  "ascii_lower ''a'' = ''a''" "ascii_lower ''A'' = ''a''"
  "ascii_lower ''b'' = ''b''" "ascii_lower ''B'' = ''b''"
  by code_simp+

theorem C5_filter_narrowing_witness:
  "ascii_lower [] = [] \<and> wf_tick gpu_AB \<and>
   py_in (ascii_lower ''a'') (ascii_lower ''A'') \<and>
   \<not> py_in (ascii_lower ''a'') (ascii_lower ''B'') \<and>
   (\<exists>mf mu.
      sample ascii_lower \<lparr>target_process = Some ''a'', sample_interval = SAMPLE_INTERVAL_MS / 1000,
                          samples = [], process_energy = []\<rparr> gpu_AB = Inr mf \<and>
      sample ascii_lower \<lparr>target_process = None, sample_interval = SAMPLE_INTERVAL_MS / 1000,
                          samples = [], process_energy = []\<rparr> gpu_AB = Inr mu \<and>
      energy_of (process_energy mf) ''A'' = energy_of (process_energy mu) ''A'' \<and>
      energy_of (process_energy mf) ''B'' = energy_of [] ''B'' \<and>
      ''B'' \<notin> set (ledger_keys (process_energy mf)) \<and>
      (\<forall>n. energy_of (process_energy mf) n \<le> energy_of (process_energy mu) n))"
proof -
  have h0: "ascii_lower [] = []" by simp
  have h1: "wf_tick gpu_AB"
    by (simp add: wf_tick_def gpu_AB_def running_procs_def mem_or_zero_def)
  have h3: "py_in (ascii_lower ''a'') (ascii_lower ''A'')"
    by (simp add: lower_a)
  have h4: "\<not> py_in (ascii_lower ''a'') (ascii_lower ''B'')"
    by (simp add: lower_a)
  have h5: "\<lparr>pid = 2, usedGpuMemory = Some (200 * 1048576)\<rparr> \<in> set (running_procs gpu_AB)"
    by (simp add: gpu_AB_def running_procs_def)
  have h6: "display_name gpu_AB \<lparr>pid = 2, usedGpuMemory = Some (200 * 1048576)\<rparr> = ''B''"
    by (simp add: display_name_def gpu_AB_def names_AB_def)
  have h7: "ledger_keys [] = []"
    by (simp add: ledger_keys_def)
  from C5_filter_narrowing [where lower = ascii_lower and f = "''a''" and d = gpu_AB and s = "[]"
      and e = "[]", OF h0]
  obtain mf mu where
    a: "sample ascii_lower \<lparr>target_process = Some ''a'', sample_interval = SAMPLE_INTERVAL_MS / 1000,
                          samples = [], process_energy = []\<rparr> gpu_AB = Inr mf"
    and b: "sample ascii_lower \<lparr>target_process = None, sample_interval = SAMPLE_INTERVAL_MS / 1000,
                          samples = [], process_energy = []\<rparr> gpu_AB = Inr mu"
    and c: "\<forall>p\<in>set (running_procs gpu_AB).
        \<not> py_in (ascii_lower ''a'') (ascii_lower (display_name gpu_AB p)) \<longrightarrow>
          display_name gpu_AB p \<notin>
            fst ` set (deltas ascii_lower gpu_AB (Some ''a'') (power_w gpu_AB)
                         (total_mem (running_procs gpu_AB))
                         (SAMPLE_INTERVAL_MS / 1000) (running_procs gpu_AB)) \<and>
          energy_of (process_energy mf) (display_name gpu_AB p) =
            energy_of [] (display_name gpu_AB p) \<and>
          (display_name gpu_AB p \<in> set (ledger_keys (process_energy mf)) \<longleftrightarrow>
             display_name gpu_AB p \<in> set (ledger_keys []))"
    and d: "\<forall>n. py_in (ascii_lower ''a'') (ascii_lower n) \<longrightarrow>
        energy_of (process_energy mf) n = energy_of (process_energy mu) n"
    and e: "wf_tick gpu_AB \<longrightarrow>
        (\<forall>n. energy_of (process_energy mf) n \<le> energy_of (process_energy mu) n)"
    by blast
  from c h5 h6 h4 h7 have c': "energy_of (process_energy mf) ''B'' = energy_of [] ''B'' \<and>
      ''B'' \<notin> set (ledger_keys (process_energy mf))"
    by fastforce
  from d h3 have d': "energy_of (process_energy mf) ''A'' = energy_of (process_energy mu) ''A''"
    by blast
  from e h1 have e': "\<forall>n. energy_of (process_energy mf) n \<le> energy_of (process_energy mu) n"
    by blast
  from h0 h1 h3 h4 a b c' d' e' show ?thesis by blast
qed

text \<open>
  With a negative reading the comparison fails: at 100 W with readings -200 for A and 600
  for B and the filter \<^verbatim>\<open>b\<close>, the filtered run leaves A at 0 J, while the run without
  the filter charges A -0.5 J.
\<close>

theorem C5_counterexample:
  "sample ascii_lower \<lparr>target_process = Some ''b'', sample_interval = SAMPLE_INTERVAL_MS / 1000,
                       samples = [], process_energy = []\<rparr> gpu_negative =
     Inr \<lparr>target_process = Some ''b'', sample_interval = SAMPLE_INTERVAL_MS / 1000,
          samples = [(0, 100, 50)], process_energy = [(''B'', 3 / 2)]\<rparr> \<and>
   sample ascii_lower \<lparr>target_process = None, sample_interval = SAMPLE_INTERVAL_MS / 1000,
                       samples = [], process_energy = []\<rparr> gpu_negative =
     Inr \<lparr>target_process = None, sample_interval = SAMPLE_INTERVAL_MS / 1000,
          samples = [(0, 100, 50)], process_energy = [(''A'', - (1 / 2)), (''B'', 3 / 2)]\<rparr> \<and>
   energy_of [(''B'', 3 / 2)] ''A'' = 0 \<and>
   energy_of [(''A'', - (1 / 2)), (''B'', 3 / 2)] ''A'' = - (1 / 2)"
  by (simp add: sample_def gpu_negative_def names_AB_def running_procs_def
      total_mem_def mem_values_def mem_or_zero_def display_name_def skipped_def lower_a
      energy_delta_def py_truediv_def power_w_def SAMPLE_INTERVAL_MS_def energy_of_def Let_def)

subsection \<open>Failed name lookups\<close>

lemma display_name_fallback [simp]:
  "display_name (with_fallback_names d) p = display_name d p"
  by (simp add: display_name_def with_fallback_names_def split: option.splits)






subsection \<open>The report\<close>

lemma percent_eq:
  "percent e_j tot = Inr (if tot \<noteq> 0 then e_j / tot * 100 else 0)"
  by (simp add: percent_def py_truediv_def)

lemma report_rows_eq:
  "report_rows tot e =
     Inr (map (\<lambda>(name, e_j). (name, e_j / 3600000, if tot \<noteq> 0 then e_j / tot * 100 else 0)) e)"
  by (induction e) (auto simp: percent_eq Let_def)

text \<open>
  Claim C8. For every sample sequence and ledger \<^verbatim>\<open>report\<close> returns a summary and no
  division error: the total is the sample-derived energy, and the percentage of each
  process is its energy divided by the total times 100 when the total is not 0, and 0
  when it is. Without samples the total is 0, and a run of zero ticks that passed the
  startup validation reports a total of 0 and no rows.
\<close>

theorem C8_report_total:
  "report m dur =
     Inr \<lparr>duration = dur, total_energy_j = sample_total m,
          total_energy_kwh = sample_total m / 3600000,
          rows = map (\<lambda>(name, e_j).
                        (name, e_j / 3600000,
                         if sample_total m \<noteq> 0 then e_j / sample_total m * 100 else 0))
                   (process_energy m)\<rparr> \<and>
   (samples m = [] \<longrightarrow> sample_total m = 0) \<and>
   main lower tp d0 [] dur =
     (case init lower tp d0 of
        Inl err \<Rightarrow> Inl err
      | Inr m0 \<Rightarrow>
          Inr \<lparr>duration = dur, total_energy_j = 0, total_energy_kwh = 0, rows = []\<rparr>)"
proof -
  have a: "report m dur =
     Inr \<lparr>duration = dur, total_energy_j = sample_total m,
          total_energy_kwh = sample_total m / 3600000,
          rows = map (\<lambda>(name, e_j).
                        (name, e_j / 3600000,
                         if sample_total m \<noteq> 0 then e_j / sample_total m * 100 else 0))
                   (process_energy m)\<rparr>"
    by (simp add: report_def report_rows_eq Let_def)
  have b: "samples m = [] \<longrightarrow> sample_total m = 0"
    by (simp add: sample_total_def)
  have c: "main lower tp d0 [] dur =
     (case init lower tp d0 of
        Inl err \<Rightarrow> Inl err
      | Inr m0 \<Rightarrow>
          Inr \<lparr>duration = dur, total_energy_j = 0, total_energy_kwh = 0, rows = []\<rparr>)"
    by (auto simp: main_def init_def report_def sample_total_def Let_def
        split: option.splits if_splits)
  from a b c show ?thesis by blast
qed

theorem C8_report_total_witness:
  "samples fresh_monitor = [] \<and> init ascii_lower None gpu_AB = Inr fresh_monitor \<and>
   report fresh_monitor 0 =
     Inr \<lparr>duration = 0, total_energy_j = 0, total_energy_kwh = 0, rows = []\<rparr> \<and>
   main ascii_lower None gpu_AB [] 0 =
     Inr \<lparr>duration = 0, total_energy_j = 0, total_energy_kwh = 0, rows = []\<rparr>"
proof -
  have h1: "samples fresh_monitor = []" by (simp add: fresh_monitor_def)
  have h2: "init ascii_lower None gpu_AB = Inr fresh_monitor" by (simp add: init_def fresh_monitor_def)
  have h3: "process_energy fresh_monitor = []" by (simp add: fresh_monitor_def)
  from C8_report_total [of fresh_monitor 0 ascii_lower None gpu_AB] h1 h2 h3
  show ?thesis by simp
qed

subsection \<open>Startup validation\<close>

lemma is_process_running_loop_iff:
  "is_process_running_loop lower t d ps \<longleftrightarrow>
     (\<exists>p\<in>set ps. \<exists>n. process_name d (pid p) = Some n \<and> py_in (lower t) (lower n))"
  by (induction ps) (auto split: option.splits)

lemma run_ticks_never_fails: "\<exists>m'. run_ticks lower m ds = Inr m'"
proof (induction ds arbitrary: m)
  case Nil
  show ?case by simp
next
  case (Cons d ds)
  obtain m1 where m1: "sample lower m d = Inr m1"
    using sample_never_fails by blast
  from Cons.IH [of m1] m1 show ?case by simp
qed

lemma report_never_fails: "\<exists>s. report m dur = Inr s"
  by (simp add: report_def report_rows_eq Let_def)

text \<open>
  Claim C7, as amended. When a non-empty filter is given and no running process has a
  resolvable name that contains it, ignoring case, the constructor exits with status 1:
  no monitor is returned, so no tick is sampled and no summary is produced, whatever the
  ticks would have been. An empty filter string is not validated: on every device the
  constructor returns the fresh monitor and the run goes on to its summary.
\<close>

theorem C7_startup_validation:
  "(f \<noteq> [] \<and>
    (\<forall>p\<in>set (running_procs d0). \<forall>n. process_name d0 (pid p) = Some n \<longrightarrow>
        \<not> py_in (lower f) (lower n)) \<longrightarrow>
      init lower (Some f) d0 = Inl (SystemExit 1) \<and>
      main lower (Some f) d0 ticks dur = Inl (SystemExit 1)) \<and>
   init lower (Some []) d0 =
     Inr \<lparr>target_process = Some [], sample_interval = SAMPLE_INTERVAL_MS / 1000, samples = [],
          process_energy = []\<rparr> \<and>
   (\<exists>s. main lower (Some []) d0 ticks dur = Inr s)"
proof -
  have a: "f \<noteq> [] \<and>
    (\<forall>p\<in>set (running_procs d0). \<forall>n. process_name d0 (pid p) = Some n \<longrightarrow>
        \<not> py_in (lower f) (lower n)) \<longrightarrow>
      init lower (Some f) d0 = Inl (SystemExit 1) \<and>
      main lower (Some f) d0 ticks dur = Inl (SystemExit 1)"
  proof
    assume h: "f \<noteq> [] \<and>
      (\<forall>p\<in>set (running_procs d0). \<forall>n. process_name d0 (pid p) = Some n \<longrightarrow>
          \<not> py_in (lower f) (lower n))"
    then have "\<not> is_process_running lower f d0"
      by (auto simp: is_process_running_def is_process_running_loop_iff)
    with h have "init lower (Some f) d0 = Inl (SystemExit 1)"
      by (simp add: init_def)
    then show "init lower (Some f) d0 = Inl (SystemExit 1) \<and>
      main lower (Some f) d0 ticks dur = Inl (SystemExit 1)"
      by (simp add: main_def)
  qed
  let ?m0 = "\<lparr>target_process = Some [], sample_interval = SAMPLE_INTERVAL_MS / 1000,
              samples = [], process_energy = []\<rparr>"
  have b: "init lower (Some []) d0 = Inr ?m0"
    by (simp add: init_def)
  obtain m' where m': "run_ticks lower ?m0 ticks = Inr m'"
    using run_ticks_never_fails by blast
  obtain s where s: "report m' dur = Inr s"
    using report_never_fails by blast
  have c: "\<exists>s. main lower (Some []) d0 ticks dur = Inr s"
    using b m' s by (simp add: main_def)
  from a b c show ?thesis by blast
qed

lemma lower_target: "ascii_lower ''Cyberpunk2077.exe'' = ''cyberpunk2077.exe''"
  by code_simp

theorem C7_startup_validation_witness:
  "''Cyberpunk2077.exe'' \<noteq> [] \<and>
   list_all (\<lambda>p. case process_name gpu_AB (pid p) of
                    None \<Rightarrow> True
                  | Some n \<Rightarrow> \<not> py_in (ascii_lower ''Cyberpunk2077.exe'') (ascii_lower n))
     (running_procs gpu_AB) \<and>
   init ascii_lower (Some ''Cyberpunk2077.exe'') gpu_AB = Inl (SystemExit 1) \<and>
   main ascii_lower (Some ''Cyberpunk2077.exe'') gpu_AB [gpu_AB, gpu_AB] 2 = Inl (SystemExit 1)"
proof -
  have h1: "''Cyberpunk2077.exe'' \<noteq> []" by simp
  have h2: "list_all (\<lambda>p. case process_name gpu_AB (pid p) of
                    None \<Rightarrow> True
                  | Some n \<Rightarrow> \<not> py_in (ascii_lower ''Cyberpunk2077.exe'') (ascii_lower n))
     (running_procs gpu_AB)"
    by (simp add: gpu_AB_def running_procs_def names_AB_def lower_target lower_a)
  then have h3: "\<forall>p\<in>set (running_procs gpu_AB). \<forall>n. process_name gpu_AB (pid p) = Some n \<longrightarrow>
           \<not> py_in (ascii_lower ''Cyberpunk2077.exe'') (ascii_lower n)"
    by (auto simp: list_all_iff)
  from C7_startup_validation [where lower = ascii_lower and f = "''Cyberpunk2077.exe''"
      and ?d0.0 = gpu_AB and ticks = "[gpu_AB, gpu_AB]" and dur = 2] h1 h3
  have "init ascii_lower (Some ''Cyberpunk2077.exe'') gpu_AB = Inl (SystemExit 1) \<and>
      main ascii_lower (Some ''Cyberpunk2077.exe'') gpu_AB [gpu_AB, gpu_AB] 2 = Inl (SystemExit 1)"
    by blast
  with h1 h2 show ?thesis by blast
qed

text \<open>
  The empty filter string is treated as no filter: on a device without processes no
  name contains it, yet the constructor returns a monitor and the run records a sample.
\<close>

theorem C7_counterexample:
  "running_procs gpu_idle = [] \<and>
   init ascii_lower (Some '''') gpu_idle =
     Inr \<lparr>target_process = Some '''', sample_interval = 1 / 100, samples = [],
          process_energy = []\<rparr> \<and>
   main ascii_lower (Some '''') gpu_idle [gpu_idle] 0 =
     Inr \<lparr>duration = 0, total_energy_j = 1, total_energy_kwh = 1 / 3600000, rows = []\<rparr>"
  by (simp add: init_def main_def sample_def report_def sample_total_def gpu_idle_def
      running_procs_def total_mem_def mem_values_def power_w_def SAMPLE_INTERVAL_MS_def Let_def)

subsection \<open>The ledger and the sample-derived total over a run\<close>

lemma sample_keeps_settings:
  "sample lower m d = Inr m' \<Longrightarrow>
   sample_interval m' = sample_interval m \<and> target_process m' = target_process m"
  by (auto simp: sample_eq)

lemma sample_total_sample:
  "sample lower m d = Inr m' \<Longrightarrow> sample_total m' = sample_total m + power_w d * sample_interval m"
  by (auto simp: sample_eq sample_total_def)

lemma ledger_sum_sample:
  "sample lower m d = Inr m' \<Longrightarrow>
   ledger_sum (process_energy m') =
     ledger_sum (process_energy m) +
     sum_list (map (spec_energy_delta (power_w d) (total_mem (running_procs d)) (sample_interval m))
                 (charged lower d (target_process m) (running_procs d)))"
  by (auto simp: sample_eq ledger_sum_apply_deltas sum_snd_deltas)

lemma sum_list_filter_le_int:
  "\<forall>x\<in>set xs. 0 \<le> f x \<Longrightarrow> sum_list (map f (filter P xs)) \<le> sum_list (map f xs :: int list)"
  by (induction xs) (auto intro: add_increasing)

lemma charged_sum_le:
  assumes wf: "wf_tick d" and dt: "0 \<le> dt"
  shows "sum_list (map (spec_energy_delta (power_w d) (total_mem (running_procs d)) dt)
                     (charged lower d tp (running_procs d))) \<le> power_w d * dt"
proof -
  let ?ps = "running_procs d"
  let ?tot = "total_mem ?ps"
  let ?c = "sum_list (mem_values (charged lower d tp ?ps))"
  from wf have nn: "\<forall>p\<in>set ?ps. 0 \<le> mem_or_zero (usedGpuMemory p)"
    by (simp add: wf_tick_def list_all_iff)
  from wf have all: "list_all (\<lambda>p. 0 \<le> mem_or_zero (usedGpuMemory p)) ?ps"
    by (simp add: wf_tick_def)
  have pos: "0 < ?tot" using total_mem_pos [OF all] .
  have "?c \<le> sum_list (mem_values ?ps)"
    unfolding mem_values_def charged_def using nn by (rule sum_list_filter_le_int)
  also have "\<dots> \<le> ?tot" by (simp add: total_mem_def Let_def)
  finally have "real_of_int ?c \<le> real_of_int ?tot" by simp
  with pos have frac: "real_of_int ?c / real_of_int ?tot \<le> 1" by simp
  have "power_w d * (real_of_int ?c / real_of_int ?tot) \<le> power_w d * 1"
    using frac power_w_nonneg [OF wf] by (rule mult_left_mono)
  then have "power_w d * (real_of_int ?c / real_of_int ?tot) * dt \<le> power_w d * 1 * dt"
    using dt by (rule mult_right_mono)
  then show ?thesis by (simp add: sum_list_spec_energy_delta)
qed

lemma sample_keeps_bound:
  assumes "wf_tick d" and "0 \<le> sample_interval m"
    and "ledger_sum (process_energy m) \<le> sample_total m" and "sample lower m d = Inr m'"
  shows "ledger_sum (process_energy m') \<le> sample_total m'"
  using charged_sum_le [OF assms(1,2), where lower = lower and tp = "target_process m"]
    ledger_sum_sample [OF assms(4)] sample_total_sample [OF assms(4)] assms(3)
  by simp

lemma run_ticks_bound:
  "0 \<le> sample_interval m \<Longrightarrow> ledger_sum (process_energy m) \<le> sample_total m \<Longrightarrow>
   \<forall>d\<in>set ds. wf_tick d \<Longrightarrow>
   \<exists>m'. run_ticks lower m ds = Inr m' \<and> ledger_sum (process_energy m') \<le> sample_total m'"
proof (induction ds arbitrary: m)
  case Nil
  then show ?case by simp
next
  case (Cons d ds)
  obtain m1 where m1: "sample lower m d = Inr m1"
    using sample_never_fails by blast
  from Cons.prems have wf: "wf_tick d" by simp
  have b: "ledger_sum (process_energy m1) \<le> sample_total m1"
    using sample_keeps_bound [OF wf Cons.prems(1,2) m1] .
  have i: "0 \<le> sample_interval m1"
    using sample_keeps_settings [OF m1] Cons.prems(1) by simp
  from Cons.IH [OF i b] Cons.prems(3) m1 show ?case by simp
qed

lemma sample_keeps_equality:
  assumes "\<not> truthy (target_process m)" and "all_charged_tick d"
    and "ledger_sum (process_energy m) = sample_total m" and "sample lower m d = Inr m'"
  shows "ledger_sum (process_energy m') = sample_total m'"
proof -
  have "0 < sum_list (mem_values (running_procs d))"
    unfolding mem_values_def using assms(2)
    by (intro sum_list_pos_int) (auto simp: all_charged_tick_def list_all_iff)
  then have "sum_list (mem_values (running_procs d)) \<noteq> 0" by simp
  from conservation_general [where lower = lower, OF assms(1) this] assms(3,4)
    sample_total_sample [OF assms(4)]
  show ?thesis by auto
qed

lemma run_ticks_equality:
  "\<not> truthy (target_process m) \<Longrightarrow> ledger_sum (process_energy m) = sample_total m \<Longrightarrow>
   \<forall>d\<in>set ds. all_charged_tick d \<Longrightarrow> run_ticks lower m ds = Inr m' \<Longrightarrow>
   ledger_sum (process_energy m') = sample_total m'"
proof (induction ds arbitrary: m)
  case Nil
  then show ?case by simp
next
  case (Cons d ds)
  obtain m1 where m1: "sample lower m d = Inr m1"
    using sample_never_fails by blast
  from Cons.prems(3) have ac: "all_charged_tick d" by simp
  have e: "ledger_sum (process_energy m1) = sample_total m1"
    using sample_keeps_equality [OF Cons.prems(1) ac Cons.prems(2) m1] .
  have t: "\<not> truthy (target_process m1)"
    using sample_keeps_settings [OF m1] Cons.prems(1) by simp
  from Cons.prems(3,4) m1 have "\<forall>d\<in>set ds. all_charged_tick d" "run_ticks lower m1 ds = Inr m'"
    by simp_all
  from Cons.IH [OF t e this] show ?case .
qed

lemma init_Inr:
  "init lower tp d0 = Inr m0 \<Longrightarrow>
   m0 = \<lparr>target_process = tp, sample_interval = SAMPLE_INTERVAL_MS / 1000, samples = [],
         process_energy = []\<rparr>"
  by (auto simp: init_def Let_def split: option.splits if_splits)

text \<open>
  Claim C9, as amended, in exact arithmetic (the rounding of floats is not modelled).
  Start from the monitor the constructor returns and let every tick have non-negative
  power and non-negative memory readings. After any number of ticks the run has not
  failed and the sum of the ledger's energies is at most the total derived from the
  samples; the two are equal when no filter is active and every tick so far had at least
  one process and only positive memory readings.
\<close>

theorem C9_ledger_bounded_by_samples:
  assumes "init lower tp d0 = Inr m0" and "\<forall>d\<in>set ticks. wf_tick d"
  shows "\<exists>m. run_ticks lower m0 (take k ticks) = Inr m \<and>
           ledger_sum (process_energy m) \<le> sample_total m \<and>
           (\<not> truthy tp \<and> (\<forall>d\<in>set (take k ticks). all_charged_tick d) \<longrightarrow>
              ledger_sum (process_energy m) = sample_total m)"
proof -
  note m0 = init_Inr [OF assms(1)]
  have i: "0 \<le> sample_interval m0"
    by (simp add: m0 SAMPLE_INTERVAL_MS_def)
  have z: "ledger_sum (process_energy m0) = sample_total m0"
    by (simp add: m0 ledger_sum_def sample_total_def)
  have wf: "\<forall>d\<in>set (take k ticks). wf_tick d"
    using assms(2) by (meson in_set_takeD)
  from z have le: "ledger_sum (process_energy m0) \<le> sample_total m0" by simp
  from run_ticks_bound [where lower = lower, OF i le wf]
  obtain m where m: "run_ticks lower m0 (take k ticks) = Inr m"
    and b: "ledger_sum (process_energy m) \<le> sample_total m"
    by blast
  have t: "target_process m0 = tp" by (simp add: m0)
  have "\<not> truthy tp \<and> (\<forall>d\<in>set (take k ticks). all_charged_tick d) \<longrightarrow>
              ledger_sum (process_energy m) = sample_total m"
    using run_ticks_equality [where lower = lower and m = m0 and ds = "take k ticks" and m' = m]
      z m t
    by blast
  with m b show ?thesis by blast
qed

theorem C9_ledger_bounded_by_samples_witness:
  "init ascii_lower None gpu_AB = Inr fresh_monitor \<and> list_all wf_tick [gpu_AB, gpu_AB] \<and>
   \<not> truthy None \<and> list_all all_charged_tick (take 2 [gpu_AB, gpu_AB]) \<and>
   (\<exists>m. run_ticks ascii_lower fresh_monitor (take 2 [gpu_AB, gpu_AB]) = Inr m \<and>
      ledger_sum (process_energy m) \<le> sample_total m \<and>
      ledger_sum (process_energy m) = sample_total m)"
proof -
  have h1: "init ascii_lower None gpu_AB = Inr fresh_monitor"
    by (simp add: init_def fresh_monitor_def)
  have wf: "wf_tick gpu_AB"
    by (simp add: wf_tick_def gpu_AB_def running_procs_def mem_or_zero_def)
  then have h2: "\<forall>d\<in>set [gpu_AB, gpu_AB]. wf_tick d" by simp
  have h3: "\<not> truthy None" by (simp add: truthy_def)
  have ac: "all_charged_tick gpu_AB"
    by (simp add: all_charged_tick_def gpu_AB_def running_procs_def mem_or_zero_def)
  then have h4: "\<forall>d\<in>set (take 2 [gpu_AB, gpu_AB]). all_charged_tick d" by simp
  from C9_ledger_bounded_by_samples [where k = 2, OF h1 h2] h1 h2 h3 h4
  show ?thesis by (auto simp: list_all_iff)
qed

text \<open>
  Two runs of one tick each show what the amendment adds. On an idle device at 100 W with
  no filter, where every process (there is none) has non-zero memory, the ledger stays at
  0 J while the samples give 1 J, so the equality fails. With a negative reading (-200
  for A, 600 for B) and the filter \<^verbatim>\<open>b\<close>, the ledger holds 1.5 J against 1 J from the
  samples, so the bound fails.
\<close>

theorem C9_counterexample:
  "init ascii_lower None gpu_idle = Inr fresh_monitor \<and> target_process fresh_monitor = None \<and>
   running_procs gpu_idle = [] \<and>
   run_ticks ascii_lower fresh_monitor [gpu_idle] = Inr (fresh_monitor\<lparr>samples := [(0, 100, 0)]\<rparr>) \<and>
   ledger_sum (process_energy (fresh_monitor\<lparr>samples := [(0, 100, 0)]\<rparr>)) = 0 \<and>
   sample_total (fresh_monitor\<lparr>samples := [(0, 100, 0)]\<rparr>) = 1 \<and>
   init ascii_lower (Some ''b'') gpu_negative = Inr (fresh_monitor\<lparr>target_process := Some ''b''\<rparr>) \<and>
   run_ticks ascii_lower (fresh_monitor\<lparr>target_process := Some ''b''\<rparr>) [gpu_negative] =
     Inr (fresh_monitor\<lparr>target_process := Some ''b'', samples := [(0, 100, 50)],
                         process_energy := [(''B'', 3 / 2)]\<rparr>) \<and>
   ledger_sum [(''B'', 3 / 2)] = 3 / 2 \<and>
   sample_total (fresh_monitor\<lparr>target_process := Some ''b'', samples := [(0, 100, 50)],
                                process_energy := [(''B'', 3 / 2)]\<rparr>) = 1"
  by (simp add: init_def is_process_running_def sample_def fresh_monitor_def gpu_idle_def
      gpu_negative_def names_AB_def running_procs_def total_mem_def mem_values_def mem_or_zero_def
      display_name_def skipped_def lower_a energy_delta_def py_truediv_def power_w_def
      SAMPLE_INTERVAL_MS_def ledger_sum_def sample_total_def Let_def)

subsection \<open>Keys gained by a tick\<close>

lemma ledger_entry:
  "n \<in> set (ledger_keys e) \<Longrightarrow> (n, energy_of e n) \<in> set e"
proof -
  assume "n \<in> set (ledger_keys e)"
  then obtain v where "map_of e n = Some v"
    by (auto simp: ledger_keys_def dest: weak_map_of_SomeI)
  then show ?thesis by (auto simp: energy_of_def dest: map_of_SomeD)
qed

lemma energy_of_not_key: "n \<notin> set (ledger_keys e) \<Longrightarrow> energy_of e n = 0"
  by (simp add: energy_of_def ledger_keys_def map_of_eq_None_iff [THEN iffD2])

lemma report_row:
  assumes "n \<in> set (ledger_keys (process_energy m))"
  shows "\<exists>s. report m dur = Inr s \<and> n \<in> fst ` set (rows s) \<and>
           (energy_of (process_energy m) n = 0 \<longrightarrow> (n, 0, 0) \<in> set (rows s))"
proof -
  let ?row = "\<lambda>(name, e_j). (name, e_j / 3600000,
                 if sample_total m \<noteq> 0 then e_j / sample_total m * 100 else (0::real))"
  let ?s = "\<lparr>duration = dur, total_energy_j = sample_total m,
             total_energy_kwh = sample_total m / 3600000,
             rows = map ?row (process_energy m)\<rparr>"
  define R where "R = set (rows ?s)"
  have r: "report m dur = Inr ?s"
    by (simp add: report_def report_rows_eq Let_def)
  have "?row (n, energy_of (process_energy m) n) \<in> ?row ` set (process_energy m)"
    using ledger_entry [OF assms] by (rule imageI)
  then have in_rows: "(n, energy_of (process_energy m) n / 3600000,
        if sample_total m \<noteq> 0 then energy_of (process_energy m) n / sample_total m * 100 else 0)
        \<in> R"
    by (simp add: R_def)
  then have "fst (n, energy_of (process_energy m) n / 3600000,
        if sample_total m \<noteq> 0 then energy_of (process_energy m) n / sample_total m * 100 else 0)
        \<in> fst ` R"
    by (rule imageI)
  then have a: "n \<in> fst ` R" by simp
  have b: "energy_of (process_energy m) n = 0 \<longrightarrow> (n, 0, 0) \<in> R"
    using in_rows by (auto split: if_splits)
  from r a b show ?thesis unfolding R_def by blast
qed

text \<open>
  Claim C10, as amended. After a tick the keys of the ledger are the earlier keys and the
  display names of the processes the filter does not skip. A process with zero memory
  that is not skipped is charged 0.0, its name is a key afterwards and has a row in the
  report; the row shows zero energy when the name was not a key before and every process
  shown under that name has zero memory. An empty process list leaves the ledger as it
  was.
\<close>

theorem C10_zero_memory_gains_key:
  "\<exists>m'. sample lower m d = Inr m' \<and>
     set (ledger_keys (process_energy m')) =
       set (ledger_keys (process_energy m)) \<union>
       display_name d ` set (charged lower d (target_process m) (running_procs d)) \<and>
     (\<forall>p\<in>set (running_procs d).
        mem_or_zero (usedGpuMemory p) = 0 \<and> \<not> skipped lower (target_process m) (display_name d p) \<longrightarrow>
          energy_delta (power_w d) (total_mem (running_procs d)) (sample_interval m) p = Inr 0 \<and>
          display_name d p \<in> set (ledger_keys (process_energy m')) \<and>
          (\<exists>s. report m' dur = Inr s \<and> display_name d p \<in> fst ` set (rows s) \<and>
             (display_name d p \<notin> set (ledger_keys (process_energy m)) \<and>
              list_all (\<lambda>q. mem_or_zero (usedGpuMemory q) = 0)
                (named d (display_name d p) (running_procs d)) \<longrightarrow>
                (display_name d p, 0, 0) \<in> set (rows s)))) \<and>
     (running_procs d = [] \<longrightarrow> process_energy m' = process_energy m)"
proof -
  let ?tp = "target_process m"
  let ?sed = "spec_energy_delta (power_w d) (total_mem (running_procs d)) (sample_interval m)"
  obtain m' where m': "sample lower m d = Inr m'"
    using sample_never_fails by blast
  have keys: "set (ledger_keys (process_energy m')) =
       set (ledger_keys (process_energy m)) \<union>
       display_name d ` set (charged lower d ?tp (running_procs d))"
    using keys_sample [OF m'] .
  have zero: "\<forall>p\<in>set (running_procs d).
        mem_or_zero (usedGpuMemory p) = 0 \<and> \<not> skipped lower ?tp (display_name d p) \<longrightarrow>
          energy_delta (power_w d) (total_mem (running_procs d)) (sample_interval m) p = Inr 0 \<and>
          display_name d p \<in> set (ledger_keys (process_energy m')) \<and>
          (\<exists>s. report m' dur = Inr s \<and> display_name d p \<in> fst ` set (rows s) \<and>
             (display_name d p \<notin> set (ledger_keys (process_energy m)) \<and>
              list_all (\<lambda>q. mem_or_zero (usedGpuMemory q) = 0)
                (named d (display_name d p) (running_procs d)) \<longrightarrow>
                (display_name d p, 0, 0) \<in> set (rows s)))"
  proof (intro ballI impI)
    fix p
    assume p: "p \<in> set (running_procs d)"
      and h: "mem_or_zero (usedGpuMemory p) = 0 \<and> \<not> skipped lower ?tp (display_name d p)"
    let ?n = "display_name d p"
    have dl: "energy_delta (power_w d) (total_mem (running_procs d)) (sample_interval m) p = Inr 0"
      using h by (simp add: energy_delta_ok total_mem_nonzero spec_energy_delta_def)
    have "p \<in> set (charged lower d ?tp (running_procs d))"
      using p h by (simp add: charged_def)
    then have k: "?n \<in> set (ledger_keys (process_energy m'))"
      using keys by blast
    from report_row [OF k, of dur] obtain s where s: "report m' dur = Inr s"
      and inr: "?n \<in> fst ` set (rows s)"
      and zr: "energy_of (process_energy m') ?n = 0 \<longrightarrow> (?n, 0, 0) \<in> set (rows s)"
      by blast
    have "?n \<notin> set (ledger_keys (process_energy m)) \<and>
          list_all (\<lambda>q. mem_or_zero (usedGpuMemory q) = 0) (named d ?n (running_procs d)) \<longrightarrow>
          (?n, 0, 0) \<in> set (rows s)"
    proof
      assume a: "?n \<notin> set (ledger_keys (process_energy m)) \<and>
          list_all (\<lambda>q. mem_or_zero (usedGpuMemory q) = 0) (named d ?n (running_procs d))"
      then have "\<forall>q\<in>set (named d ?n (running_procs d)). ?sed q = 0"
        by (auto simp: list_all_iff spec_energy_delta_def)
      then have "sum_list (map ?sed (named d ?n (running_procs d))) = 0"
        by (rule sum_list_all_zero)
      with energy_of_sample [OF m', of ?n] h a
      have "energy_of (process_energy m') ?n = 0"
        by (simp add: named_charged energy_of_not_key)
      with zr show "(?n, 0, 0) \<in> set (rows s)" by blast
    qed
    with dl k s inr
    show "energy_delta (power_w d) (total_mem (running_procs d)) (sample_interval m) p = Inr 0 \<and>
          ?n \<in> set (ledger_keys (process_energy m')) \<and>
          (\<exists>s. report m' dur = Inr s \<and> ?n \<in> fst ` set (rows s) \<and>
             (?n \<notin> set (ledger_keys (process_energy m)) \<and>
              list_all (\<lambda>q. mem_or_zero (usedGpuMemory q) = 0) (named d ?n (running_procs d)) \<longrightarrow>
                (?n, 0, 0) \<in> set (rows s)))"
      by blast
  qed
  have empty: "running_procs d = [] \<longrightarrow> process_energy m' = process_energy m"
    using m' by (auto simp: sample_eq deltas_def charged_def)
  from m' keys zero empty show ?thesis by blast
qed

theorem C10_zero_memory_gains_key_witness:
  "\<lparr>pid = 1, usedGpuMemory = Some 0\<rparr> \<in> set (running_procs gpu_zero) \<and>
   mem_or_zero (usedGpuMemory \<lparr>pid = 1, usedGpuMemory = Some 0\<rparr>) = 0 \<and>
   \<not> skipped ascii_lower (target_process fresh_monitor)
       (display_name gpu_zero \<lparr>pid = 1, usedGpuMemory = Some 0\<rparr>) \<and>
   display_name gpu_zero \<lparr>pid = 1, usedGpuMemory = Some 0\<rparr> = ''A'' \<and>
   ''A'' \<notin> set (ledger_keys (process_energy fresh_monitor)) \<and>
   list_all (\<lambda>q. mem_or_zero (usedGpuMemory q) = 0) (named gpu_zero ''A'' (running_procs gpu_zero)) \<and>
   (\<exists>m'. sample ascii_lower fresh_monitor gpu_zero = Inr m' \<and>
      ''A'' \<in> set (ledger_keys (process_energy m')) \<and>
      (\<exists>s. report m' 0 = Inr s \<and> (''A'', 0, 0) \<in> set (rows s)))"
proof -
  let ?p = "\<lparr>pid = 1, usedGpuMemory = Some 0\<rparr>"
  have h1: "?p \<in> set (running_procs gpu_zero)"
    by (simp add: gpu_zero_def running_procs_def)
  have h2: "mem_or_zero (usedGpuMemory ?p) = 0"
    by (simp add: mem_or_zero_def)
  have h4: "display_name gpu_zero ?p = ''A''"
    by (simp add: display_name_def gpu_zero_def names_AB_def)
  have h3: "\<not> skipped ascii_lower (target_process fresh_monitor) (display_name gpu_zero ?p)"
    by (simp add: fresh_monitor_def)
  have h5: "''A'' \<notin> set (ledger_keys (process_energy fresh_monitor))"
    by (simp add: fresh_monitor_def ledger_keys_def)
  have h6: "list_all (\<lambda>q. mem_or_zero (usedGpuMemory q) = 0)
              (named gpu_zero ''A'' (running_procs gpu_zero))"
    by (simp add: named_def gpu_zero_def running_procs_def display_name_def names_AB_def
        mem_or_zero_def)
  from C10_zero_memory_gains_key [where lower = ascii_lower and m = fresh_monitor and d = gpu_zero
      and dur = 0]
  obtain m' where a: "sample ascii_lower fresh_monitor gpu_zero = Inr m'"
    and b: "\<forall>p\<in>set (running_procs gpu_zero).
        mem_or_zero (usedGpuMemory p) = 0 \<and>
        \<not> skipped ascii_lower (target_process fresh_monitor) (display_name gpu_zero p) \<longrightarrow>
          energy_delta (power_w gpu_zero) (total_mem (running_procs gpu_zero))
            (sample_interval fresh_monitor) p = Inr 0 \<and>
          display_name gpu_zero p \<in> set (ledger_keys (process_energy m')) \<and>
          (\<exists>s. report m' 0 = Inr s \<and> display_name gpu_zero p \<in> fst ` set (rows s) \<and>
             (display_name gpu_zero p \<notin> set (ledger_keys (process_energy fresh_monitor)) \<and>
              list_all (\<lambda>q. mem_or_zero (usedGpuMemory q) = 0)
                (named gpu_zero (display_name gpu_zero p) (running_procs gpu_zero)) \<longrightarrow>
                (display_name gpu_zero p, 0, 0) \<in> set (rows s)))"
    by blast
  from b h1 h2 h3 have "display_name gpu_zero ?p \<in> set (ledger_keys (process_energy m')) \<and>
          (\<exists>s. report m' 0 = Inr s \<and> display_name gpu_zero ?p \<in> fst ` set (rows s) \<and>
             (display_name gpu_zero ?p \<notin> set (ledger_keys (process_energy fresh_monitor)) \<and>
              list_all (\<lambda>q. mem_or_zero (usedGpuMemory q) = 0)
                (named gpu_zero (display_name gpu_zero ?p) (running_procs gpu_zero)) \<longrightarrow>
                (display_name gpu_zero ?p, 0, 0) \<in> set (rows s)))"
    by blast
  then have "''A'' \<in> set (ledger_keys (process_energy m')) \<and>
          (\<exists>s. report m' 0 = Inr s \<and> (''A'', 0, 0) \<in> set (rows s))"
    using h5 h6 unfolding h4 by blast
  with a h1 h2 h3 h4 h5 h6 show ?thesis by blast
qed

text \<open>
  An empty process list is not the only way to keep the key set: a second tick that
  observes the same two processes adds energy and no key.
\<close>

theorem C10_counterexample:
  "running_procs gpu_AB \<noteq> [] \<and>
   sample ascii_lower fresh_monitor gpu_AB =
     Inr (fresh_monitor\<lparr>samples := [(0, 100, 50)],
                         process_energy := [(''A'', 3 / 4), (''B'', 1 / 4)]\<rparr>) \<and>
   sample ascii_lower (fresh_monitor\<lparr>samples := [(0, 100, 50)],
                          process_energy := [(''A'', 3 / 4), (''B'', 1 / 4)]\<rparr>) gpu_AB =
     Inr (fresh_monitor\<lparr>samples := [(0, 100, 50), (0, 100, 50)],
                         process_energy := [(''A'', 3 / 2), (''B'', 1 / 2)]\<rparr>) \<and>
   ledger_keys [(''A'', 3 / 2), (''B'', 1 / 2)] = ledger_keys [(''A'', 3 / 4), (''B'', 1 / 4 :: real)]"
  by (simp add: sample_def fresh_monitor_def gpu_AB_def names_AB_def running_procs_def
      total_mem_def mem_values_def mem_or_zero_def display_name_def skipped_def
      energy_delta_def py_truediv_def power_w_def SAMPLE_INTERVAL_MS_def ledger_keys_def Let_def)

end
